theory Spec2Isabelle
  imports Complex_Main
begin

section \<open>JavaScript values\<close>

text \<open>
  The request body is what \<^verbatim>\<open>bodyParser.json()\<close> leaves in \<^verbatim>\<open>req.body\<close>: a value
  built by \<^verbatim>\<open>JSON.parse\<close>, or nothing at all. A parsed number is an IEEE double; a finite
  double is a rational (both zeros are the rational 0), and \<^verbatim>\<open>JSON.parse\<close> yields an
  infinity for a literal out of range and never NaN.
\<close>

datatype jsnum = Finite rat | PosInfinity | NegInfinity

datatype jsval =
    JUndefined
  | JNull
  | JBool bool
  | JNum jsnum
  | JStr string
  | JArr "jsval list"
  | JObj "(string \<times> jsval) list"

text \<open>ToBoolean, as used by \<^verbatim>\<open>!x\<close>, \<^verbatim>\<open>x || y\<close> and \<^verbatim>\<open>x ? a : b\<close>.\<close>

fun truthy :: "jsval \<Rightarrow> bool" where
  "truthy JUndefined = False"
| "truthy JNull = False"
| "truthy (JBool b) = b"
| "truthy (JNum n) = (n \<noteq> Finite 0)"
| "truthy (JStr s) = (s \<noteq> [])"
| "truthy (JArr xs) = True"
| "truthy (JObj kvs) = True"

definition falsy :: "jsval \<Rightarrow> bool" where
  "falsy v = (\<not> truthy v)"

text \<open>\<^verbatim>\<open>a || b\<close>: the left operand when it is truthy, the right one otherwise.\<close>

definition js_or :: "jsval \<Rightarrow> jsval \<Rightarrow> jsval" where
  "js_or a b = (if truthy a then a else b)"

definition nullish :: "jsval \<Rightarrow> bool" where
  "nullish v = (v = JUndefined \<or> v = JNull)"

text \<open>
  Property read \<^verbatim>\<open>v.k\<close> on a value that is neither null nor undefined, for the keys
  the program reads (event, data, name, email, date, time, description): none of them
  is defined on a prototype, so only an object's own entry answers. The pairs of an
  object are in the order of the JSON text, and \<^verbatim>\<open>JSON.parse\<close> keeps the last value of
  a repeated key. A read on null or undefined throws; the callers guard it.
\<close>

fun get_prop :: "jsval \<Rightarrow> string \<Rightarrow> jsval" where
  "get_prop (JObj kvs) k = (case map_of (rev kvs) k of Some v \<Rightarrow> v | None \<Rightarrow> JUndefined)"
| "get_prop v k = JUndefined"

section \<open>The clock\<close>

text \<open>
  \<^verbatim>\<open>new Date().toISOString()\<close> is library code: the broken-down current UTC time printed
  as \<^verbatim>\<open>YYYY-MM-DDTHH:mm:ss.sssZ\<close>, the year with a sign and six digits once it is
  beyond 9999.
\<close>

record utc_time =
  year :: nat
  month :: nat
  day :: nat
  hours :: nat
  minutes :: nat
  seconds :: nat
  milliseconds :: nat

definition digit :: "nat \<Rightarrow> char" where
  "digit n = ''0123456789'' ! (n mod 10)"

definition pad2 :: "nat \<Rightarrow> string" where
  "pad2 n = [digit (n div 10), digit n]"

definition pad3 :: "nat \<Rightarrow> string" where
  "pad3 n = [digit (n div 100), digit (n div 10), digit n]"

definition pad4 :: "nat \<Rightarrow> string" where
  "pad4 n = [digit (n div 1000), digit (n div 100), digit (n div 10), digit n]"

definition pad6 :: "nat \<Rightarrow> string" where
  "pad6 n = [digit (n div 100000), digit (n div 10000), digit (n div 1000),
             digit (n div 100), digit (n div 10), digit n]"

definition toISOString :: "utc_time \<Rightarrow> string" where
  "toISOString t =
     (if year t \<le> 9999 then pad4 (year t) else ''+'' @ pad6 (year t))
     @ ''-'' @ pad2 (month t) @ ''-'' @ pad2 (day t)
     @ ''T'' @ pad2 (hours t) @ '':'' @ pad2 (minutes t) @ '':'' @ pad2 (seconds t)
     @ ''.'' @ pad3 (milliseconds t) @ ''Z''"

text \<open>\<^verbatim>\<open>s.split('T')[0]\<close>: the part of \<open>s\<close> before its first \<^verbatim>\<open>T\<close>, all of it when there is none.\<close>

definition split_T_0 :: "string \<Rightarrow> string" where
  "split_T_0 s = takeWhile (\<lambda>c. c \<noteq> CHR ''T'') s"

text \<open>The date as the specification words it, \<^verbatim>\<open>YYYY-MM-DD\<close>.\<close>

definition yyyy_mm_dd :: "utc_time \<Rightarrow> string" where
  "yyyy_mm_dd t = pad4 (year t) @ ''-'' @ pad2 (month t) @ ''-'' @ pad2 (day t)"

section \<open>The remote spreadsheet service\<close>

text \<open>
  The service is an external collaborator, so it is a parameter: four operations on a
  world \<open>'w\<close> that the program cannot see into, each answering with a thrown error or
  with the typed reply of the API. An error object carries its message and, sometimes,
  the messages of its sub-errors.
\<close>

record js_error =
  message :: string
  errors :: "string list option"

record sheet_properties =
  sheetId :: int
  title :: string

datatype sheet_request = AddSheet string nat nat

record update_info =
  updatedRange :: string
  updatedRows :: nat

record append_data =
  updates :: update_info

text \<open>
  \<open>spreadsheets_batchUpdate\<close> answers with
  \<^verbatim>\<open>data.replies[0].addSheet.properties.sheetId\<close>, the identifier of the sheet it added.
\<close>

record 'w sheets_api =
  spreadsheets_get :: "string option \<Rightarrow> string \<Rightarrow> 'w \<Rightarrow> (js_error + sheet_properties list) \<times> 'w"
  spreadsheets_batchUpdate :: "string option \<Rightarrow> sheet_request list \<Rightarrow> 'w \<Rightarrow> (js_error + int) \<times> 'w"
  values_update :: "string option \<Rightarrow> string \<Rightarrow> string \<Rightarrow> jsval list list \<Rightarrow> 'w \<Rightarrow> (js_error + unit) \<times> 'w"
  values_append ::
    "string option \<Rightarrow> string \<Rightarrow> string \<Rightarrow> string \<Rightarrow> jsval list list \<Rightarrow> 'w \<Rightarrow> (js_error + append_data) \<times> 'w"

record 'w env =
  process_env_SPREADSHEET_ID :: "string option"
  process_env_SHEET_NAME :: "string option"
  sheets :: "'w sheets_api"
  clock :: "'w \<Rightarrow> utc_time"

definition SPREADSHEET_ID :: "'w env \<Rightarrow> string option" where
  "SPREADSHEET_ID env = process_env_SPREADSHEET_ID env"

definition SHEET_NAME :: "'w env \<Rightarrow> string" where
  "SHEET_NAME env =
     (case process_env_SHEET_NAME env of
        None \<Rightarrow> ''Calendar''
      | Some s \<Rightarrow> if s = [] then ''Calendar'' else s)"

subsection \<open>What a request leaves behind\<close>

text \<open>
  Besides the world, a run of the handler leaves the remote calls it issued, each with
  the clock reading when it was issued and the error it met (if any), and the lines it
  wrote to the console.
\<close>

datatype request =
    SpreadsheetsGet "string option" string
  | SpreadsheetsBatchUpdate "string option" "sheet_request list"
  | ValuesUpdate "string option" string string "jsval list list"
  | ValuesAppend "string option" string string string "jsval list list"

record call =
  request :: request
  issued_at :: utc_time
  failure :: "js_error option"

datatype console_line =
    Incoming_webhook jsval
  | Creating_new_sheet string
  | Event_added update_info
  | Sheets_API_Error string
  | Sub_error string
  | Webhook_Error string

record 'w state =
  world :: 'w
  calls :: "call list"
  console :: "console_line list"

definition console_write :: "console_line list \<Rightarrow> 'w state \<Rightarrow> 'w state" where
  "console_write ls st = st\<lparr>console := console st @ ls\<rparr>"

definition remote ::
  "'w env \<Rightarrow> request \<Rightarrow> ('w \<Rightarrow> (js_error + 'r) \<times> 'w) \<Rightarrow> 'w state \<Rightarrow> (js_error + 'r) \<times> 'w state" where
  "remote env rq f st =
     (case f (world st) of
        (res, w') \<Rightarrow>
          (res, st\<lparr>world := w',
                   calls := calls st @
                     [\<lparr>request = rq, issued_at = clock env (world st),
                       failure = (case res of Inl e \<Rightarrow> Some e | Inr r \<Rightarrow> None)\<rparr>]\<rparr>))"

section \<open>The program\<close>

subsection \<open>getSheetId\<close>

text \<open>
  The function reads the metadata, then takes the first sheet of the answer whose title
  is the name (\<^verbatim>\<open>find\<close> with \<^verbatim>\<open>===\<close>) and returns its identifier, or null when
  there is none. \<open>find_sheet\<close> is that second half.
\<close>

definition find_sheet :: "sheet_properties list \<Rightarrow> string \<Rightarrow> int option" where
  "find_sheet listing sheetName =
     (case find (\<lambda>s. title s = sheetName) listing of
        None \<Rightarrow> None
      | Some sheet \<Rightarrow> Some (sheetId sheet))"

definition getSheetId :: "'w env \<Rightarrow> string \<Rightarrow> 'w state \<Rightarrow> (js_error + int option) \<times> 'w state" where
  "getSheetId env sheetName st =
     (case remote env (SpreadsheetsGet (SPREADSHEET_ID env) ''sheets(properties(sheetId,title))'')
             (spreadsheets_get (sheets env) (SPREADSHEET_ID env) ''sheets(properties(sheetId,title))'') st of
        (Inl e, st1) \<Rightarrow> (Inl e, st1)
      | (Inr listing, st1) \<Rightarrow> (Inr (find_sheet listing sheetName), st1))"

subsection \<open>addToCalendar\<close>

text \<open>\<^verbatim>\<open>!sheetId\<close> holds of null and of the number 0.\<close>

definition not_sheetId :: "int option \<Rightarrow> bool" where
  "not_sheetId i = (case i of None \<Rightarrow> True | Some n \<Rightarrow> n = 0)"

definition add_sheet_request :: "'w env \<Rightarrow> request" where
  "add_sheet_request env =
     SpreadsheetsBatchUpdate (SPREADSHEET_ID env) [AddSheet (SHEET_NAME env) 1000 10]"

definition header_request :: "'w env \<Rightarrow> request" where
  "header_request env =
     ValuesUpdate (SPREADSHEET_ID env) (SHEET_NAME env @ ''!A1:E1'') ''USER_ENTERED''
       [[JStr ''Date'', JStr ''Time'', JStr ''Name'', JStr ''Email'', JStr ''Description'']]"

text \<open>The body of \<^verbatim>\<open>if (!sheetId) { ... }\<close>: create the sheet, then write its header.\<close>

definition provision :: "'w env \<Rightarrow> 'w state \<Rightarrow> (js_error + int) \<times> 'w state" where
  "provision env st =
     (case remote env (add_sheet_request env)
             (spreadsheets_batchUpdate (sheets env) (SPREADSHEET_ID env)
                [AddSheet (SHEET_NAME env) 1000 10])
             (console_write [Creating_new_sheet (SHEET_NAME env)] st) of
        (Inl e, st1) \<Rightarrow> (Inl e, st1)
      | (Inr newId, st1) \<Rightarrow>
          (case remote env (header_request env)
                  (values_update (sheets env) (SPREADSHEET_ID env) (SHEET_NAME env @ ''!A1:E1'')
                     ''USER_ENTERED''
                     [[JStr ''Date'', JStr ''Time'', JStr ''Name'', JStr ''Email'',
                       JStr ''Description'']]) st1 of
             (Inl e, st2) \<Rightarrow> (Inl e, st2)
           | (Inr u, st2) \<Rightarrow> (Inr newId, st2)))"

definition row_of :: "jsval \<Rightarrow> utc_time \<Rightarrow> jsval list" where
  "row_of eventData now =
     [js_or (get_prop eventData ''date'') (JStr (split_T_0 (toISOString now))),
      js_or (get_prop eventData ''time'') (JStr ''12:00''),
      get_prop eventData ''name'',
      get_prop eventData ''email'',
      js_or (get_prop eventData ''description'') (JStr '''')]"

definition append_request :: "'w env \<Rightarrow> jsval \<Rightarrow> utc_time \<Rightarrow> request" where
  "append_request env eventData now =
     ValuesAppend (SPREADSHEET_ID env) (SHEET_NAME env @ ''!A:E'') ''USER_ENTERED'' ''INSERT_ROWS''
       [row_of eventData now]"

text \<open>Step 2 of the try block. Reading a field of null or undefined throws a TypeError.\<close>

definition append_row :: "'w env \<Rightarrow> jsval \<Rightarrow> 'w state \<Rightarrow> (js_error + append_data) \<times> 'w state" where
  "append_row env eventData st =
     (if nullish eventData then
        (Inl \<lparr>message = ''Cannot read properties of '' @
                (if eventData = JNull then ''null'' else ''undefined'') @ '' (reading 'date')'',
              errors = None\<rparr>, st)
      else
        (case remote env (append_request env eventData (clock env (world st)))
                (values_append (sheets env) (SPREADSHEET_ID env) (SHEET_NAME env @ ''!A:E'')
                   ''USER_ENTERED'' ''INSERT_ROWS'' [row_of eventData (clock env (world st))]) st of
           (Inl e, st1) \<Rightarrow> (Inl e, st1)
         | (Inr data, st1) \<Rightarrow> (Inr data, console_write [Event_added (updates data)] st1)))"

text \<open>The try block of \<^verbatim>\<open>addToCalendar\<close>.\<close>

definition addToCalendar_try :: "'w env \<Rightarrow> jsval \<Rightarrow> 'w state \<Rightarrow> (js_error + append_data) \<times> 'w state" where
  "addToCalendar_try env eventData st =
     (case getSheetId env (SHEET_NAME env) st of
        (Inl e, st1) \<Rightarrow> (Inl e, st1)
      | (Inr sid, st1) \<Rightarrow>
          if not_sheetId sid then
            (case provision env st1 of
               (Inl e, st2) \<Rightarrow> (Inl e, st2)
             | (Inr newId, st2) \<Rightarrow> append_row env eventData st2)
          else append_row env eventData st1)"

text \<open>The catch block: log the error and its sub-errors, throw the wrapped one.\<close>

definition addToCalendar :: "'w env \<Rightarrow> jsval \<Rightarrow> 'w state \<Rightarrow> (js_error + append_data) \<times> 'w state" where
  "addToCalendar env eventData st =
     (case addToCalendar_try env eventData st of
        (Inr data, st1) \<Rightarrow> (Inr data, st1)
      | (Inl error, st1) \<Rightarrow>
          (Inl \<lparr>message = ''Failed to update spreadsheet: '' @ message error, errors = None\<rparr>,
           console_write
             (Sheets_API_Error (message error) #
                (case errors error of None \<Rightarrow> [] | Some es \<Rightarrow> map Sub_error es)) st1))"

subsection \<open>POST /webhook\<close>

record response =
  status :: nat
  body :: jsval

text \<open>
  The catch block of the handler. The console gets \<^verbatim>\<open>error.stack\<close>, whose text past the
  message belongs to the engine; the line keeps the message.
\<close>

definition internal_server_error :: "js_error \<Rightarrow> 'w state \<Rightarrow> response \<times> 'w state" where
  "internal_server_error error st =
     (\<lparr>status = 500,
       body = JObj [(''error'', JStr ''Internal server error''), (''details'', JStr (message error))]\<rparr>,
      console_write [Webhook_Error (message error)] st)"

definition bad_request :: "string \<Rightarrow> response" where
  "bad_request msg = \<lparr>status = 400, body = JObj [(''error'', JStr msg)]\<rparr>"

definition webhook :: "'w env \<Rightarrow> jsval \<Rightarrow> 'w \<Rightarrow> response \<times> 'w state" where
  "webhook env req_body w =
     (let st = \<lparr>world = w, calls = [], console = [Incoming_webhook req_body]\<rparr> in
      if nullish req_body then
        internal_server_error
          \<lparr>message = ''Cannot destructure property 'event' of 'req.body' as it is '' @
             (if req_body = JNull then ''null'' else ''undefined'') @ ''.'',
           errors = None\<rparr> st
      else
        let event = get_prop req_body ''event''; data = get_prop req_body ''data'' in
        if falsy event \<or> falsy data then (bad_request ''Missing event or data'', st)
        else if event \<noteq> JStr ''schedule_appointment'' then (bad_request ''Unsupported event type'', st)
        else if falsy (get_prop data ''name'') \<or> falsy (get_prop data ''email'') then
          (bad_request ''Missing required fields'', st)
        else
          (case addToCalendar env data st of
             (Inl error, st1) \<Rightarrow> internal_server_error error st1
           | (Inr r, st1) \<Rightarrow>
               (\<lparr>status = 200,
                 body = JObj [(''success'', JBool True), (''message'', JStr ''Event added to calendar'')]\<rparr>,
                st1)))"

section \<open>An in-memory service\<close>

text \<open>
  A small spreadsheet service to run the handler against on concrete inputs: sheets
  with their rows, a switch that refuses every call with a given error, and the rule
  of the real service that two sheets cannot share a title. A range names its sheet
  before the \<^verbatim>\<open>!\<close>.
\<close>

record mem =
  mem_sheets :: "(sheet_properties \<times> jsval list list) list"
  mem_next_id :: int
  mem_refuse :: "js_error option"
  mem_now :: utc_time

definition range_sheet :: "string \<Rightarrow> string" where
  "range_sheet r = takeWhile (\<lambda>c. c \<noteq> CHR ''!'') r"

definition mem_titles :: "mem \<Rightarrow> string list" where
  "mem_titles w = map (\<lambda>x. title (fst x)) (mem_sheets w)"

definition mem_rows :: "mem \<Rightarrow> string \<Rightarrow> jsval list list" where
  "mem_rows w name = concat (map snd (filter (\<lambda>x. title (fst x) = name) (mem_sheets w)))"

definition mem_change :: "string \<Rightarrow> (jsval list list \<Rightarrow> jsval list list) \<Rightarrow> mem \<Rightarrow> mem" where
  "mem_change name f w =
     w\<lparr>mem_sheets := map (\<lambda>x. if title (fst x) = name then (fst x, f (snd x)) else x) (mem_sheets w)\<rparr>"

definition mem_get :: "string option \<Rightarrow> string \<Rightarrow> mem \<Rightarrow> (js_error + sheet_properties list) \<times> mem" where
  "mem_get ssid fmask w =
     (case mem_refuse w of
        Some e \<Rightarrow> (Inl e, w)
      | None \<Rightarrow> (Inr (map fst (mem_sheets w)), w))"

fun mem_batchUpdate :: "string option \<Rightarrow> sheet_request list \<Rightarrow> mem \<Rightarrow> (js_error + int) \<times> mem" where
  "mem_batchUpdate ssid [AddSheet t r c] w =
     (case mem_refuse w of
        Some e \<Rightarrow> (Inl e, w)
      | None \<Rightarrow>
          if t \<in> set (mem_titles w) then
            (Inl \<lparr>message = ''A sheet with the name '' @ t @ '' already exists'', errors = None\<rparr>, w)
          else
            (Inr (mem_next_id w),
             w\<lparr>mem_sheets := mem_sheets w @ [(\<lparr>sheetId = mem_next_id w, title = t\<rparr>, [])],
               mem_next_id := mem_next_id w + 1\<rparr>))"
| "mem_batchUpdate ssid reqs w = (Inl \<lparr>message = ''Unsupported request'', errors = None\<rparr>, w)"

definition mem_update ::
  "string option \<Rightarrow> string \<Rightarrow> string \<Rightarrow> jsval list list \<Rightarrow> mem \<Rightarrow> (js_error + unit) \<times> mem" where
  "mem_update ssid rng vio vals w =
     (case mem_refuse w of
        Some e \<Rightarrow> (Inl e, w)
      | None \<Rightarrow>
          if range_sheet rng \<in> set (mem_titles w) then
            (Inr (), mem_change (range_sheet rng) (\<lambda>rows. vals @ drop (length vals) rows) w)
          else (Inl \<lparr>message = ''Unable to parse rng: '' @ rng, errors = None\<rparr>, w))"

definition mem_append ::
  "string option \<Rightarrow> string \<Rightarrow> string \<Rightarrow> string \<Rightarrow> jsval list list \<Rightarrow> mem \<Rightarrow> (js_error + append_data) \<times> mem" where
  "mem_append ssid rng vio ido vals w =
     (case mem_refuse w of
        Some e \<Rightarrow> (Inl e, w)
      | None \<Rightarrow>
          if range_sheet rng \<in> set (mem_titles w) then
            (Inr \<lparr>updates = \<lparr>updatedRange = rng, updatedRows = length vals\<rparr>\<rparr>,
             mem_change (range_sheet rng) (\<lambda>rows. rows @ vals) w)
          else (Inl \<lparr>message = ''Unable to parse rng: '' @ rng, errors = None\<rparr>, w))"

definition mem_env :: "mem env" where
  "mem_env =
     \<lparr>process_env_SPREADSHEET_ID = Some ''spreadsheet-1'',
      process_env_SHEET_NAME = None,
      sheets = \<lparr>spreadsheets_get = mem_get, spreadsheets_batchUpdate = mem_batchUpdate,
                values_update = mem_update, values_append = mem_append\<rparr>,
      clock = mem_now\<rparr>"

definition noon :: utc_time where
  "noon = \<lparr>year = 2024, month = 3, day = 9, hours = 12, minutes = 0, seconds = 5, milliseconds = 42\<rparr>"

definition header_row :: "jsval list" where
  "header_row = [JStr ''Date'', JStr ''Time'', JStr ''Name'', JStr ''Email'', JStr ''Description'']"

text \<open>A new spreadsheet: its one sheet has identifier 0 and the title Sheet1.\<close>

definition mem_new :: mem where
  "mem_new =
     \<lparr>mem_sheets = [(\<lparr>sheetId = 0, title = ''Sheet1''\<rparr>, [])],
      mem_next_id = 1789, mem_refuse = None, mem_now = noon\<rparr>"

text \<open>A spreadsheet whose Calendar sheet was added later, with a header and one row.\<close>

definition mem_ready :: mem where
  "mem_ready =
     \<lparr>mem_sheets = [(\<lparr>sheetId = 0, title = ''Sheet1''\<rparr>, []),
                    (\<lparr>sheetId = 1789, title = ''Calendar''\<rparr>,
                     [header_row,
                      [JStr ''2024-03-08'', JStr ''09:30'', JStr ''Al'', JStr ''al@example.com'', JStr []]])],
      mem_next_id = 1790, mem_refuse = None, mem_now = noon\<rparr>"

text \<open>A spreadsheet whose first sheet, of identifier 0, was renamed Calendar.\<close>

definition mem_renamed :: mem where
  "mem_renamed =
     \<lparr>mem_sheets = [(\<lparr>sheetId = 0, title = ''Calendar''\<rparr>, [header_row])],
      mem_next_id = 1789, mem_refuse = None, mem_now = noon\<rparr>"

definition jane :: jsval where
  "jane =
     JObj [(''event'', JStr ''schedule_appointment''),
           (''data'', JObj [(''name'', JStr ''Jane Doe''), (''email'', JStr ''jane@example.com'')])]"

definition cancel :: jsval where
  "cancel =
     JObj [(''event'', JStr ''cancel_appointment''),
           (''data'', JObj [(''name'', JStr ''X''), (''email'', JStr ''y@z.com'')])]"

definition empty_event :: jsval where
  "empty_event =
     JObj [(''event'', JStr []),
           (''data'', JObj [(''name'', JStr ''Jane Doe''), (''email'', JStr ''jane@example.com'')])]"

definition zero_event :: jsval where
  "zero_event =
     JObj [(''event'', JNum (Finite 0)),
           (''data'', JObj [(''name'', JStr ''Jane Doe''), (''email'', JStr ''jane@example.com'')])]"

definition no_email :: jsval where
  "no_email =
     JObj [(''event'', JStr ''schedule_appointment''),
           (''data'', JObj [(''name'', JStr ''Jane Doe''), (''email'', JStr [])])]"

definition blank_fields :: jsval where
  "blank_fields =
     JObj [(''event'', JStr ''schedule_appointment''),
           (''data'', JObj [(''name'', JStr ''Jane Doe''), (''email'', JStr ''jane@example.com''),
                            (''date'', JStr []), (''time'', JNum (Finite 0)),
                            (''description'', JBool False)])]"

definition cancel_no_name :: jsval where
  "cancel_no_name =
     JObj [(''event'', JStr ''cancel''),
           (''data'', JObj [(''name'', JStr []), (''email'', JStr ''b'')])]"

text \<open>The service refusing the credentials, with one sub-error.\<close>

definition invalid_grant :: js_error where
  "invalid_grant = \<lparr>message = ''invalid_grant'', errors = Some [''Invalid JWT Signature.'']\<rparr>"

definition mem_refusing :: mem where
  "mem_refusing = mem_ready\<lparr>mem_refuse := Some invalid_grant\<rparr>"

section \<open>Vocabulary of the properties\<close>

fun is_append :: "request \<Rightarrow> bool" where
  "is_append (ValuesAppend ssid rng vio ido vals) = True"
| "is_append rq = False"

fun is_batchUpdate :: "request \<Rightarrow> bool" where
  "is_batchUpdate (SpreadsheetsBatchUpdate ssid reqs) = True"
| "is_batchUpdate rq = False"

text \<open>No remote call of the run met an error.\<close>

definition all_ok :: "call list \<Rightarrow> bool" where
  "all_ok cs = list_all (\<lambda>c. failure c = None) cs"

text \<open>The state of a request that made no remote call: only the incoming body was logged.\<close>

definition idle :: "jsval \<Rightarrow> 'w \<Rightarrow> 'w state" where
  "idle req_body w = \<lparr>world = w, calls = [], console = [Incoming_webhook req_body]\<rparr>"

text \<open>A field that is there and falsy: the empty string, 0, false or null.\<close>

definition present_falsy :: "jsval \<Rightarrow> bool" where
  "present_falsy v = (v = JStr [] \<or> v = JNum (Finite 0) \<or> v = JBool False \<or> v = JNull)"

definition ok_response :: response where
  "ok_response =
     \<lparr>status = 200,
      body = JObj [(''success'', JBool True), (''message'', JStr ''Event added to calendar'')]\<rparr>"

definition failed_response :: "string \<Rightarrow> response" where
  "failed_response details =
     \<lparr>status = 500,
      body = JObj [(''error'', JStr ''Internal server error''), (''details'', JStr details)]\<rparr>"

text \<open>
  A valid payload: the event is the string schedule_appointment and \<^verbatim>\<open>data.name\<close> and
  \<^verbatim>\<open>data.email\<close> are truthy (for strings: not empty).
\<close>

definition valid_payload :: "jsval \<Rightarrow> bool" where
  "valid_payload req_body =
     (get_prop req_body ''event'' = JStr ''schedule_appointment''
      \<and> truthy (get_prop (get_prop req_body ''data'') ''name'')
      \<and> truthy (get_prop (get_prop req_body ''data'') ''email''))"

text \<open>What the catch blocks log for an error thrown in the try block of addToCalendar.\<close>

definition failure_log :: "js_error \<Rightarrow> console_line list" where
  "failure_log e =
     Sheets_API_Error (message e) #
     (case errors e of None \<Rightarrow> [] | Some es \<Rightarrow> map Sub_error es) @
     [Webhook_Error (''Failed to update spreadsheet: '' @ message e)]"

text \<open>
  A scripted service: its world counts the calls it has answered, it knows no sheet, and
  it fails the call of a chosen number. The environment sets a sheet name and no
  spreadsheet identifier.
\<close>

definition hang_up :: js_error where
  "hang_up = \<lparr>message = ''socket hang up'', errors = None\<rparr>"

definition scripted_env :: "nat \<Rightarrow> nat env" where
  "scripted_env k =
     \<lparr>process_env_SPREADSHEET_ID = None,
      process_env_SHEET_NAME = Some ''Bookings'',
      sheets =
        \<lparr>spreadsheets_get = (\<lambda>ssid fmask n. (if n = k then Inl hang_up else Inr [], Suc n)),
         spreadsheets_batchUpdate = (\<lambda>ssid reqs n. (if n = k then Inl hang_up else Inr 7, Suc n)),
         values_update = (\<lambda>ssid rng vio vals n. (if n = k then Inl hang_up else Inr (), Suc n)),
         values_append = (\<lambda>ssid rng vio ido vals n.
           (if n = k then Inl hang_up
            else Inr \<lparr>updates = \<lparr>updatedRange = rng, updatedRows = length vals\<rparr>\<rparr>, Suc n))\<rparr>,
      clock = (\<lambda>n. noon)\<rparr>"

section \<open>Evaluation and shape lemmas\<close>

lemmas step_defs = remote_def getSheetId_def provision_def append_row_def addToCalendar_try_def
  addToCalendar_def console_write_def internal_server_error_def

lemmas mem_defs = mem_env_def mem_get_def mem_update_def mem_append_def mem_change_def
  mem_titles_def mem_rows_def range_sheet_def SHEET_NAME_def SPREADSHEET_ID_def find_sheet_def
  not_sheetId_def add_sheet_request_def header_request_def append_request_def row_of_def
  js_or_def split_T_0_def toISOString_def pad2_def pad3_def pad4_def pad6_def digit_def noon_def
  header_row_def nullish_def falsy_def bad_request_def ok_response_def failed_response_def
  idle_def yyyy_mm_dd_def

lemma falsy_iff:
  "falsy v \<longleftrightarrow> v = JUndefined \<or> present_falsy v"
  by (cases v) (auto simp: falsy_def present_falsy_def)

lemma truthy_get_prop: "truthy (get_prop v k) \<Longrightarrow> truthy v \<and> \<not> nullish v"
  by (cases v) (simp_all add: nullish_def)

lemma present_get_prop: "present_falsy (get_prop v k) \<Longrightarrow> truthy v \<and> \<not> nullish v"
  by (cases v) (simp_all add: nullish_def present_falsy_def)

lemma find_SomeD: "find P xs = Some x \<Longrightarrow> P x \<and> x \<in> set xs"
  by (induction xs) (auto split: if_splits)

lemma digit_in_digits: "digit n \<in> set ''0123456789''"
  unfolding digit_def by (rule nth_mem) simp

lemma digit_not_T [simp]: "digit n \<noteq> CHR ''T''"
  using digit_in_digits [of n] by auto

lemma split_T_0_toISOString:
  "year t \<le> 9999 \<Longrightarrow> split_T_0 (toISOString t) = yyyy_mm_dd t"
  by (simp add: split_T_0_def toISOString_def yyyy_mm_dd_def pad2_def pad4_def)

text \<open>
  Every run of the try block issues its calls one after the other and stops at the
  first error: all the calls but the last succeeded and none of them is an append, the
  last call failed exactly when the block threw, and an append carries the row built
  from the event at the clock reading of its issue.
\<close>

lemma try_shapes:
  assumes "\<not> nullish d" and "addToCalendar_try env d st = (res, st1)"
  shows "\<exists>pre c. calls st1 = calls st @ pre @ [c]
           \<and> list_all (\<lambda>c. failure c = None \<and> \<not> is_append (request c)) pre
           \<and> failure c = (case res of Inl e \<Rightarrow> Some e | Inr r \<Rightarrow> None)
           \<and> (case res of
                 Inr r \<Rightarrow> request c = append_request env d (issued_at c)
               | Inl e \<Rightarrow> is_append (request c) \<longrightarrow> request c = append_request env d (issued_at c))"
  using assms
  by (auto simp: step_defs add_sheet_request_def header_request_def append_request_def
      split: prod.splits sum.splits if_splits)

text \<open>The five ways a request ends.\<close>

lemma webhook_outcomes:
  "webhook env req_body w = (bad_request ''Missing event or data'', idle req_body w)
   \<or> webhook env req_body w = (bad_request ''Unsupported event type'', idle req_body w)
   \<or> webhook env req_body w = (bad_request ''Missing required fields'', idle req_body w)
   \<or> status (fst (webhook env req_body w)) = 200
   \<or> status (fst (webhook env req_body w)) = 500"
  by (simp add: webhook_def Let_def idle_def internal_server_error_def split: prod.splits sum.splits)

text \<open>Runs of the handler against the in-memory service.\<close>

lemma run_jane_new:
  "webhook mem_env jane mem_new =
    (ok_response,
     \<lparr>world = mem_new\<lparr>mem_sheets := [(\<lparr>sheetId = 0, title = ''Sheet1''\<rparr>, []),
         (\<lparr>sheetId = 1789, title = ''Calendar''\<rparr>,
          [header_row, [JStr ''2024-03-09'', JStr ''12:00'', JStr ''Jane Doe'', JStr ''jane@example.com'', JStr []]])],
         mem_next_id := 1790\<rparr>,
      calls = [\<lparr>request = SpreadsheetsGet (Some ''spreadsheet-1'') ''sheets(properties(sheetId,title))'',
                issued_at = noon, failure = None\<rparr>,
               \<lparr>request = SpreadsheetsBatchUpdate (Some ''spreadsheet-1'') [AddSheet ''Calendar'' 1000 10],
                issued_at = noon, failure = None\<rparr>,
               \<lparr>request = ValuesUpdate (Some ''spreadsheet-1'') ''Calendar!A1:E1'' ''USER_ENTERED'' [header_row],
                issued_at = noon, failure = None\<rparr>,
               \<lparr>request = ValuesAppend (Some ''spreadsheet-1'') ''Calendar!A:E'' ''USER_ENTERED'' ''INSERT_ROWS''
                   [[JStr ''2024-03-09'', JStr ''12:00'', JStr ''Jane Doe'', JStr ''jane@example.com'', JStr []]],
                issued_at = noon, failure = None\<rparr>],
      console = [Incoming_webhook jane, Creating_new_sheet ''Calendar'',
                 Event_added \<lparr>updatedRange = ''Calendar!A:E'', updatedRows = 1\<rparr>]\<rparr>)"
  by (simp add: webhook_def jane_def mem_new_def Let_def step_defs mem_defs)

lemma run_jane_ready:
  "webhook mem_env jane mem_ready =
    (ok_response,
     \<lparr>world = mem_ready\<lparr>mem_sheets := [(\<lparr>sheetId = 0, title = ''Sheet1''\<rparr>, []),
         (\<lparr>sheetId = 1789, title = ''Calendar''\<rparr>,
          [header_row,
           [JStr ''2024-03-08'', JStr ''09:30'', JStr ''Al'', JStr ''al@example.com'', JStr []],
           [JStr ''2024-03-09'', JStr ''12:00'', JStr ''Jane Doe'', JStr ''jane@example.com'', JStr []]])]\<rparr>,
      calls = [\<lparr>request = SpreadsheetsGet (Some ''spreadsheet-1'') ''sheets(properties(sheetId,title))'',
                issued_at = noon, failure = None\<rparr>,
               \<lparr>request = ValuesAppend (Some ''spreadsheet-1'') ''Calendar!A:E'' ''USER_ENTERED'' ''INSERT_ROWS''
                   [[JStr ''2024-03-09'', JStr ''12:00'', JStr ''Jane Doe'', JStr ''jane@example.com'', JStr []]],
                issued_at = noon, failure = None\<rparr>],
      console = [Incoming_webhook jane,
                 Event_added \<lparr>updatedRange = ''Calendar!A:E'', updatedRows = 1\<rparr>]\<rparr>)"
  by (simp add: webhook_def jane_def mem_ready_def Let_def step_defs mem_defs)

lemma run_jane_renamed:
  "webhook mem_env jane mem_renamed =
    (failed_response ''Failed to update spreadsheet: A sheet with the name Calendar already exists'',
     \<lparr>world = mem_renamed,
      calls = [\<lparr>request = SpreadsheetsGet (Some ''spreadsheet-1'') ''sheets(properties(sheetId,title))'',
                issued_at = noon, failure = None\<rparr>,
               \<lparr>request = SpreadsheetsBatchUpdate (Some ''spreadsheet-1'') [AddSheet ''Calendar'' 1000 10],
                issued_at = noon,
                failure = Some \<lparr>message = ''A sheet with the name Calendar already exists'', errors = None\<rparr>\<rparr>],
      console = [Incoming_webhook jane, Creating_new_sheet ''Calendar'',
                 Sheets_API_Error ''A sheet with the name Calendar already exists'',
                 Webhook_Error ''Failed to update spreadsheet: A sheet with the name Calendar already exists'']\<rparr>)"
  by (simp add: webhook_def jane_def mem_renamed_def Let_def step_defs mem_defs)

lemma run_jane_refusing:
  "webhook mem_env jane mem_refusing =
    (failed_response ''Failed to update spreadsheet: invalid_grant'',
     \<lparr>world = mem_refusing,
      calls = [\<lparr>request = SpreadsheetsGet (Some ''spreadsheet-1'') ''sheets(properties(sheetId,title))'',
                issued_at = noon, failure = Some invalid_grant\<rparr>],
      console = [Incoming_webhook jane, Sheets_API_Error ''invalid_grant'',
                 Sub_error ''Invalid JWT Signature.'',
                 Webhook_Error ''Failed to update spreadsheet: invalid_grant'']\<rparr>)"
  by (simp add: webhook_def jane_def mem_refusing_def mem_ready_def invalid_grant_def Let_def
      step_defs mem_defs)

lemma run_blank_fields_ready:
  "webhook mem_env blank_fields mem_ready =
    (ok_response,
     \<lparr>world = mem_ready\<lparr>mem_sheets := [(\<lparr>sheetId = 0, title = ''Sheet1''\<rparr>, []),
         (\<lparr>sheetId = 1789, title = ''Calendar''\<rparr>,
          [header_row,
           [JStr ''2024-03-08'', JStr ''09:30'', JStr ''Al'', JStr ''al@example.com'', JStr []],
           [JStr ''2024-03-09'', JStr ''12:00'', JStr ''Jane Doe'', JStr ''jane@example.com'', JStr []]])]\<rparr>,
      calls = [\<lparr>request = SpreadsheetsGet (Some ''spreadsheet-1'') ''sheets(properties(sheetId,title))'',
                issued_at = noon, failure = None\<rparr>,
               \<lparr>request = ValuesAppend (Some ''spreadsheet-1'') ''Calendar!A:E'' ''USER_ENTERED'' ''INSERT_ROWS''
                   [[JStr ''2024-03-09'', JStr ''12:00'', JStr ''Jane Doe'', JStr ''jane@example.com'', JStr []]],
                issued_at = noon, failure = None\<rparr>],
      console = [Incoming_webhook blank_fields,
                 Event_added \<lparr>updatedRange = ''Calendar!A:E'', updatedRows = 1\<rparr>]\<rparr>)"
  by (simp add: webhook_def blank_fields_def mem_ready_def Let_def step_defs mem_defs)

lemma run_rejected:
  "webhook mem_env cancel mem_ready = (bad_request ''Unsupported event type'', idle cancel mem_ready)"
  "webhook mem_env empty_event mem_ready = (bad_request ''Missing event or data'', idle empty_event mem_ready)"
  "webhook mem_env zero_event mem_ready = (bad_request ''Missing event or data'', idle zero_event mem_ready)"
  "webhook mem_env no_email mem_ready = (bad_request ''Missing required fields'', idle no_email mem_ready)"
  by (simp_all add: webhook_def cancel_def empty_event_def zero_event_def no_email_def Let_def
      nullish_def falsy_def idle_def)

text \<open>A valid payload reaches addToCalendar, and the answer follows its outcome.\<close>

lemma valid_payload_data:
  "valid_payload req_body \<Longrightarrow>
     \<not> nullish req_body \<and> truthy (get_prop req_body ''data'') \<and> \<not> nullish (get_prop req_body ''data'')"
  unfolding valid_payload_def
  by (metis truthy_get_prop truthy.simps(5) list.distinct(1))

lemma webhook_valid:
  assumes "valid_payload req_body"
  shows "webhook env req_body w =
     (case addToCalendar_try env (get_prop req_body ''data'') (idle req_body w) of
        (Inr d, st1) \<Rightarrow> (ok_response, st1)
      | (Inl e, st1) \<Rightarrow>
          (failed_response (''Failed to update spreadsheet: '' @ message e),
           console_write (failure_log e) st1))"
proof -
  from assms valid_payload_data [OF assms]
  have "\<not> nullish req_body" "\<not> falsy (get_prop req_body ''event'')"
    "\<not> falsy (get_prop req_body ''data'')"
    "get_prop req_body ''event'' = JStr ''schedule_appointment''"
    "\<not> falsy (get_prop (get_prop req_body ''data'') ''name'')"
    "\<not> falsy (get_prop (get_prop req_body ''data'') ''email'')"
    by (simp_all add: valid_payload_def falsy_def)
  then show ?thesis
    by (simp add: webhook_def Let_def idle_def addToCalendar_def internal_server_error_def
        console_write_def failure_log_def ok_response_def failed_response_def
        split: prod.splits sum.splits)
qed

lemma webhook_calls:
  "calls (snd (webhook env req_body w)) = [] \<or> valid_payload req_body"
  by (simp add: webhook_def Let_def internal_server_error_def console_write_def valid_payload_def
      falsy_def split: prod.splits sum.splits)

text \<open>
  The run of a valid payload: its calls are those of the try block, all but the last
  succeeded, and the last decides the answer.
\<close>

lemma webhook_valid_shape:
  assumes "valid_payload req_body" and "webhook env req_body w = (res, st)"
  shows "\<exists>pre c. calls st = pre @ [c]
           \<and> list_all (\<lambda>c. failure c = None \<and> \<not> is_append (request c)) pre
           \<and> (is_append (request c) \<longrightarrow>
                 request c = append_request env (get_prop req_body ''data'') (issued_at c))
           \<and> (case failure c of
                 None \<Rightarrow> res = ok_response \<and> is_append (request c)
               | Some e \<Rightarrow> res = failed_response (''Failed to update spreadsheet: '' @ message e)
                    \<and> (\<exists>before. console st = before @ failure_log e))"
proof -
  obtain r st1 where tr: "addToCalendar_try env (get_prop req_body ''data'') (idle req_body w) = (r, st1)"
    by (cases "addToCalendar_try env (get_prop req_body ''data'') (idle req_body w)")
  from valid_payload_data [OF assms(1)] have nn: "\<not> nullish (get_prop req_body ''data'')" by simp
  from try_shapes [OF nn tr] obtain pre c where
    shape: "calls st1 = pre @ [c]"
      "list_all (\<lambda>c. failure c = None \<and> \<not> is_append (request c)) pre"
      "failure c = (case r of Inl e \<Rightarrow> Some e | Inr r \<Rightarrow> None)"
      "case r of Inr r \<Rightarrow> request c = append_request env (get_prop req_body ''data'') (issued_at c)
       | Inl e \<Rightarrow> is_append (request c) \<longrightarrow>
           request c = append_request env (get_prop req_body ''data'') (issued_at c)"
    by (auto simp: idle_def)
  show ?thesis
  proof (cases r)
    case (Inl e)
    with webhook_valid [OF assms(1), of env w] tr assms(2)
    have res: "res = failed_response (''Failed to update spreadsheet: '' @ message e)"
      and st: "st = console_write (failure_log e) st1"
      by simp_all
    from st have "calls st = calls st1" "console st = console st1 @ failure_log e"
      by (simp_all add: console_write_def)
    with shape Inl res show ?thesis by auto
  next
    case (Inr d)
    with webhook_valid [OF assms(1), of env w] tr assms(2)
    have "res = ok_response" "st = st1" by simp_all
    with shape Inr show ?thesis by (auto simp: append_request_def)
  qed
qed

section \<open>The sheet resolver\<close>

text \<open>
  C5. For every sheet name and every metadata listing the service answers with,
  \<^verbatim>\<open>getSheetId\<close> returns the identifier of the first sheet of the listing whose title
  is the name, compared as strings (so case matters), and null when no title is the
  name.
\<close>

theorem getSheetId_resolves:
  assumes "spreadsheets_get (sheets env) (SPREADSHEET_ID env) ''sheets(properties(sheetId,title))''
             (world st) = (Inr listing, w1)"
  shows "\<exists>r. fst (getSheetId env sheetName st) = Inr r
           \<and> (sheetName \<notin> title ` set listing \<longrightarrow> r = None)
           \<and> (\<forall>before s after. listing = before @ s # after \<and> title s = sheetName
                  \<and> sheetName \<notin> title ` set before \<longrightarrow> r = Some (sheetId s))
           \<and> (\<forall>i. r = Some i \<longrightarrow> (\<exists>s \<in> set listing. title s = sheetName \<and> sheetId s = i))"
proof -
  let ?r = "find_sheet listing sheetName"
  have res: "fst (getSheetId env sheetName st) = Inr ?r"
    using assms by (simp add: getSheetId_def remote_def)
  have none: "sheetName \<notin> title ` set listing \<longrightarrow> ?r = None"
    by (auto simp: find_sheet_def split: option.splits dest!: find_SomeD)
  have first: "?r = Some (sheetId s)"
    if "listing = before @ s # after" "title s = sheetName" "sheetName \<notin> title ` set before"
    for before s after
  proof -
    have "find (\<lambda>x. title x = sheetName) (before @ s # after) = Some s"
      using that(2,3) by (induction before) auto
    then show ?thesis by (simp add: find_sheet_def that(1))
  qed
  have some: "\<exists>s \<in> set listing. title s = sheetName \<and> sheetId s = i" if "?r = Some i" for i
    using that by (auto simp: find_sheet_def split: option.splits dest!: find_SomeD)
  from res none first some show ?thesis by blast
qed

theorem getSheetId_resolves_witness:
  "fst (getSheetId mem_env ''Calendar'' (idle jane mem_ready)) = Inr (Some 1789)
   \<and> fst (getSheetId mem_env ''calendar'' (idle jane mem_ready)) = Inr None"
proof -
  have get: "spreadsheets_get (sheets mem_env) (SPREADSHEET_ID mem_env) ''sheets(properties(sheetId,title))''
               (world (idle jane mem_ready))
             = (Inr [\<lparr>sheetId = 0, title = ''Sheet1''\<rparr>, \<lparr>sheetId = 1789, title = ''Calendar''\<rparr>], mem_ready)"
    by (simp add: mem_defs mem_ready_def)
  from getSheetId_resolves [OF get, of "''Calendar''"] obtain r
    where r: "fst (getSheetId mem_env ''Calendar'' (idle jane mem_ready)) = Inr r"
      and first: "\<forall>before s after.
        [\<lparr>sheetId = 0, title = ''Sheet1''\<rparr>, \<lparr>sheetId = 1789, title = ''Calendar''\<rparr>] = before @ s # after
        \<and> title s = ''Calendar'' \<and> ''Calendar'' \<notin> title ` set before \<longrightarrow> r = Some (sheetId s)"
    by blast
  from first [rule_format, of "[\<lparr>sheetId = 0, title = ''Sheet1''\<rparr>]" "\<lparr>sheetId = 1789, title = ''Calendar''\<rparr>" "[]"]
  have "r = Some 1789" by simp
  moreover from getSheetId_resolves [OF get, of "''calendar''"] obtain r'
    where "fst (getSheetId mem_env ''calendar'' (idle jane mem_ready)) = Inr r'"
      and "''calendar'' \<notin> title ` set [\<lparr>sheetId = 0, title = ''Sheet1''\<rparr>, \<lparr>sheetId = 1789, title = ''Calendar''\<rparr>]
             \<longrightarrow> r' = None"
    by blast
  ultimately show ?thesis using r by simp
qed

section \<open>The payload validator\<close>

text \<open>
  C2, as amended. The three checks test truthiness, in order. For every request body
  that is not null or undefined: when \<^verbatim>\<open>event\<close> or \<^verbatim>\<open>data\<close> is absent or falsy (null,
  false, 0, the empty string) the response is 400 "Missing event or data"; otherwise,
  when \<^verbatim>\<open>event\<close> is not the string schedule_appointment, it is 400 "Unsupported event
  type"; otherwise, when \<^verbatim>\<open>data.name\<close> or \<^verbatim>\<open>data.email\<close> is absent or falsy, it is 400
  "Missing required fields". The three responses differ, a rejected request makes no
  remote call, and a body that passes the three checks is never answered with 400.
\<close>

theorem validator_branches:
  assumes "\<not> nullish req_body"
    and "event = get_prop req_body ''event''" and "data = get_prop req_body ''data''"
  shows "(event = JUndefined \<or> present_falsy event \<or> data = JUndefined \<or> present_falsy data \<longrightarrow>
            webhook env req_body w = (bad_request ''Missing event or data'', idle req_body w))
       \<and> (truthy event \<and> truthy data \<and> event \<noteq> JStr ''schedule_appointment'' \<longrightarrow>
            webhook env req_body w = (bad_request ''Unsupported event type'', idle req_body w))
       \<and> (event = JStr ''schedule_appointment'' \<and> truthy data
            \<and> (get_prop data ''name'' = JUndefined \<or> present_falsy (get_prop data ''name'')
                 \<or> get_prop data ''email'' = JUndefined \<or> present_falsy (get_prop data ''email'')) \<longrightarrow>
            webhook env req_body w = (bad_request ''Missing required fields'', idle req_body w))
       \<and> (event = JStr ''schedule_appointment'' \<and> truthy data
            \<and> truthy (get_prop data ''name'') \<and> truthy (get_prop data ''email'') \<longrightarrow>
            status (fst (webhook env req_body w)) \<noteq> 400)
       \<and> distinct [bad_request ''Missing event or data'', bad_request ''Unsupported event type'',
                    bad_request ''Missing required fields'']"
proof -
  have missing: "webhook env req_body w = (bad_request ''Missing event or data'', idle req_body w)"
    if "falsy event \<or> falsy data"
    using that assms by (simp add: webhook_def Let_def idle_def)
  have unsupported: "webhook env req_body w = (bad_request ''Unsupported event type'', idle req_body w)"
    if "truthy event" "truthy data" "event \<noteq> JStr ''schedule_appointment''"
    using that assms by (simp add: webhook_def Let_def idle_def falsy_def)
  have fields: "webhook env req_body w = (bad_request ''Missing required fields'', idle req_body w)"
    if "event = JStr ''schedule_appointment''" "truthy data"
       "falsy (get_prop data ''name'') \<or> falsy (get_prop data ''email'')"
    using that assms by (auto simp: webhook_def Let_def idle_def falsy_def)
  have passed: "status (fst (webhook env req_body w)) \<noteq> 400"
    if "event = JStr ''schedule_appointment''" "truthy data"
       "truthy (get_prop data ''name'')" "truthy (get_prop data ''email'')"
    using that assms
    by (auto simp: webhook_def Let_def falsy_def internal_server_error_def split: prod.splits sum.splits)
  have "distinct [bad_request ''Missing event or data'', bad_request ''Unsupported event type'',
                  bad_request ''Missing required fields'']"
    by (simp add: bad_request_def)
  with missing unsupported fields passed show ?thesis
    by (simp add: falsy_iff)
qed

theorem validator_branches_witness:
  "webhook mem_env empty_event mem_ready = (bad_request ''Missing event or data'', idle empty_event mem_ready)
   \<and> webhook mem_env cancel mem_ready = (bad_request ''Unsupported event type'', idle cancel mem_ready)
   \<and> webhook mem_env no_email mem_ready = (bad_request ''Missing required fields'', idle no_email mem_ready)
   \<and> status (fst (webhook mem_env jane mem_ready)) \<noteq> 400"
proof -
  have e: "\<not> nullish empty_event" "JStr [] = get_prop empty_event ''event''"
    by (simp_all add: empty_event_def nullish_def)
  have pf: "present_falsy (JStr [])"
    by (simp add: present_falsy_def)
  from validator_branches [OF e refl, of mem_env mem_ready] pf
  have 1: "webhook mem_env empty_event mem_ready
           = (bad_request ''Missing event or data'', idle empty_event mem_ready)"
    by blast
  have c: "\<not> nullish cancel" "JStr ''cancel_appointment'' = get_prop cancel ''event''"
    "truthy (JStr ''cancel_appointment'')" "truthy (get_prop cancel ''data'')"
    "JStr ''cancel_appointment'' \<noteq> JStr ''schedule_appointment''"
    by (simp_all add: cancel_def nullish_def)
  from validator_branches [OF c(1,2) refl, of mem_env mem_ready] c(3,4,5)
  have 2: "webhook mem_env cancel mem_ready
           = (bad_request ''Unsupported event type'', idle cancel mem_ready)"
    by blast
  have n: "\<not> nullish no_email" "JStr ''schedule_appointment'' = get_prop no_email ''event''"
    "truthy (get_prop no_email ''data'')"
    "present_falsy (get_prop (get_prop no_email ''data'') ''email'')"
    by (simp_all add: no_email_def nullish_def present_falsy_def)
  from validator_branches [OF n(1,2) refl, of mem_env mem_ready] n(3,4)
  have 3: "webhook mem_env no_email mem_ready
           = (bad_request ''Missing required fields'', idle no_email mem_ready)"
    by blast
  have j: "\<not> nullish jane" "JStr ''schedule_appointment'' = get_prop jane ''event''"
    "truthy (get_prop jane ''data'')"
    "truthy (get_prop (get_prop jane ''data'') ''name'')"
    "truthy (get_prop (get_prop jane ''data'') ''email'')"
    by (simp_all add: jane_def nullish_def)
  from validator_branches [OF j(1,2) refl, of mem_env mem_ready] j(3,4,5)
  have 4: "status (fst (webhook mem_env jane mem_ready)) \<noteq> 400"
    by blast
  from 1 2 3 4 show ?thesis by blast
qed

text \<open>
  C2 as it is written fails on a field that is present and falsy: an \<^verbatim>\<open>event\<close> that is the
  empty string, or the number 0, is present and is not schedule_appointment, and the
  answer is "Missing event or data", not "Unsupported event type".
\<close>

theorem validator_presence_counterexample:
  "get_prop empty_event ''event'' = JStr []
   \<and> get_prop zero_event ''event'' = JNum (Finite 0)
   \<and> truthy (get_prop empty_event ''data'') \<and> truthy (get_prop zero_event ''data'')
   \<and> fst (webhook mem_env empty_event mem_ready) = bad_request ''Missing event or data''
   \<and> fst (webhook mem_env zero_event mem_ready) = bad_request ''Missing event or data''
   \<and> bad_request ''Missing event or data'' \<noteq> bad_request ''Unsupported event type''"
  by (simp add: run_rejected) (simp add: empty_event_def zero_event_def bad_request_def)

text \<open>
  C9, as amended. A field that is present and falsy (the empty string, 0, false, null)
  counts as missing. Such an \<^verbatim>\<open>event\<close> or \<^verbatim>\<open>data\<close> gives 400 "Missing event or data",
  whatever the other fields are. Such a \<^verbatim>\<open>data.name\<close> or \<^verbatim>\<open>data.email\<close> always gives a
  400, and it is "Missing required fields" whenever the event is schedule_appointment;
  otherwise the earlier checks answer first.
\<close>

theorem validator_tests_truthiness:
  "(present_falsy (get_prop req_body ''event'') \<or> present_falsy (get_prop req_body ''data'') \<longrightarrow>
      fst (webhook env req_body w) = bad_request ''Missing event or data'')
   \<and> (present_falsy (get_prop (get_prop req_body ''data'') ''name'')
        \<or> present_falsy (get_prop (get_prop req_body ''data'') ''email'') \<longrightarrow>
      status (fst (webhook env req_body w)) = 400
      \<and> (get_prop req_body ''event'' = JStr ''schedule_appointment'' \<longrightarrow>
            fst (webhook env req_body w) = bad_request ''Missing required fields''))"
proof (intro conjI impI)
  assume a: "present_falsy (get_prop req_body ''event'') \<or> present_falsy (get_prop req_body ''data'')"
  then have "\<not> nullish req_body" using present_get_prop by blast
  moreover from a have "falsy (get_prop req_body ''event'') \<or> falsy (get_prop req_body ''data'')"
    by (auto simp: falsy_iff)
  ultimately show "fst (webhook env req_body w) = bad_request ''Missing event or data''"
    by (simp add: webhook_def Let_def)
next
  assume a: "present_falsy (get_prop (get_prop req_body ''data'') ''name'')
       \<or> present_falsy (get_prop (get_prop req_body ''data'') ''email'')"
  then have d: "truthy (get_prop req_body ''data'')" using present_get_prop by blast
  then have nn: "\<not> nullish req_body" using truthy_get_prop by blast
  from a have f: "falsy (get_prop (get_prop req_body ''data'') ''name'')
       \<or> falsy (get_prop (get_prop req_body ''data'') ''email'')"
    by (auto simp: falsy_iff)
  from nn d f show "status (fst (webhook env req_body w)) = 400"
    by (simp add: webhook_def Let_def falsy_def bad_request_def)
  assume "get_prop req_body ''event'' = JStr ''schedule_appointment''"
  with nn d f show "fst (webhook env req_body w) = bad_request ''Missing required fields''"
    by (simp add: webhook_def Let_def falsy_def)
qed

theorem validator_tests_truthiness_witness:
  "present_falsy (get_prop empty_event ''event'')
   \<and> fst (webhook mem_env empty_event mem_ready) = bad_request ''Missing event or data''
   \<and> present_falsy (get_prop (get_prop no_email ''data'') ''email'')
   \<and> fst (webhook mem_env no_email mem_ready) = bad_request ''Missing required fields''"
proof -
  have e: "present_falsy (get_prop empty_event ''event'')"
    by (simp add: empty_event_def present_falsy_def)
  have n: "get_prop no_email ''event'' = JStr ''schedule_appointment''"
    "present_falsy (get_prop (get_prop no_email ''data'') ''email'')"
    by (simp_all add: no_email_def present_falsy_def)
  from e validator_tests_truthiness [of empty_event mem_env mem_ready]
  have 1: "fst (webhook mem_env empty_event mem_ready) = bad_request ''Missing event or data''"
    by blast
  from n validator_tests_truthiness [of no_email mem_env mem_ready]
  have 2: "fst (webhook mem_env no_email mem_ready) = bad_request ''Missing required fields''"
    by blast
  from e n(2) 1 2 show ?thesis by blast
qed

text \<open>
  C9 as it is written, with "Missing required fields" for every present and falsy
  \<^verbatim>\<open>data.name\<close>, fails when the event is another one: the check of the event answers
  first, with "Unsupported event type".
\<close>

theorem falsy_name_wrong_event_counterexample:
  "get_prop (get_prop cancel_no_name ''data'') ''name'' = JStr []
   \<and> present_falsy (get_prop (get_prop cancel_no_name ''data'') ''name'')
   \<and> fst (webhook mem_env cancel_no_name mem_ready) = bad_request ''Unsupported event type''
   \<and> bad_request ''Unsupported event type'' \<noteq> bad_request ''Missing required fields''"
  by (simp add: webhook_def cancel_no_name_def Let_def nullish_def falsy_def present_falsy_def
      bad_request_def)

text \<open>
  C8. A request answered with 400 made no remote call: the world it leaves is the world
  it found, the list of its calls is empty, and the answer is one of the three
  validation errors.
\<close>

theorem rejected_request_leaves_spreadsheet:
  assumes "webhook env req_body w = (res, st)" and "status res = 400"
  shows "world st = w \<and> calls st = []
       \<and> (res = bad_request ''Missing event or data'' \<or> res = bad_request ''Unsupported event type''
            \<or> res = bad_request ''Missing required fields'')"
proof -
  from assms have "status (fst (webhook env req_body w)) = 400" by simp
  with webhook_outcomes [of env req_body w] assms(1)
  have "st = idle req_body w \<and> (res = bad_request ''Missing event or data''
      \<or> res = bad_request ''Unsupported event type'' \<or> res = bad_request ''Missing required fields'')"
    by auto
  then show ?thesis by (auto simp: idle_def)
qed

theorem rejected_request_leaves_spreadsheet_witness:
  "status (fst (webhook mem_env cancel mem_ready)) = 400
   \<and> fst (webhook mem_env cancel mem_ready) = bad_request ''Unsupported event type''
   \<and> world (snd (webhook mem_env cancel mem_ready)) = mem_ready
   \<and> calls (snd (webhook mem_env cancel mem_ready)) = []"
proof -
  have run: "webhook mem_env cancel mem_ready = (bad_request ''Unsupported event type'', idle cancel mem_ready)"
    by (rule run_rejected)
  have st: "status (bad_request ''Unsupported event type'') = 400"
    by (simp add: bad_request_def)
  from rejected_request_leaves_spreadsheet [OF run st] run st show ?thesis by simp
qed

section \<open>The row appender and the request handler\<close>

lemma no_append_before:
  "list_all (\<lambda>c. failure c = None \<and> \<not> is_append (request c)) pre \<Longrightarrow>
     filter (\<lambda>c. is_append (request c)) pre = [] \<and> all_ok pre"
  by (induction pre) (auto simp: all_ok_def)

text \<open>Every append a valid payload issues carries the one row built from its data.\<close>

lemma appended_row:
  assumes "valid_payload req_body" and "webhook env req_body w = (res, st)"
    and "c \<in> set (calls st)" and "request c = ValuesAppend ssid rng vio ido vals"
  shows "vals = [row_of (get_prop req_body ''data'') (issued_at c)]"
proof -
  from webhook_valid_shape [OF assms(1,2)] obtain pre c' where
    shape: "calls st = pre @ [c']"
      "list_all (\<lambda>c. failure c = None \<and> \<not> is_append (request c)) pre"
      "is_append (request c') \<longrightarrow>
         request c' = append_request env (get_prop req_body ''data'') (issued_at c')"
    by blast
  from assms(4) have app: "is_append (request c)" by simp
  with shape(2) have "c \<notin> set pre" by (auto simp: list_all_iff)
  with assms(3) shape(1) have "c = c'" by simp
  with app shape(3) assms(4) show ?thesis by (simp add: append_request_def)
qed

text \<open>
  C1, as amended. For every request body whose event is the string schedule_appointment
  and whose \<^verbatim>\<open>data.name\<close> and \<^verbatim>\<open>data.email\<close> are truthy (for strings: not empty), a run in
  which no remote call fails is answered with HTTP 200 and
  \<^verbatim>\<open>{success: true, message: "Event added to calendar"}\<close>, and issues exactly one append, of
  exactly one row, which is \<^verbatim>\<open>[date, time, name, email, description]\<close> with the name and
  the email of the body.
\<close>

theorem valid_payload_appends_one_row:
  assumes "valid_payload req_body" and "webhook env req_body w = (res, st)" and "all_ok (calls st)"
  shows "res = \<lparr>status = 200,
                body = JObj [(''success'', JBool True), (''message'', JStr ''Event added to calendar'')]\<rparr>
       \<and> (\<exists>d tm ds.
            map request (filter (\<lambda>c. is_append (request c)) (calls st)) =
              [ValuesAppend (SPREADSHEET_ID env) (SHEET_NAME env @ ''!A:E'') ''USER_ENTERED'' ''INSERT_ROWS''
                 [[d, tm, get_prop (get_prop req_body ''data'') ''name'',
                   get_prop (get_prop req_body ''data'') ''email'', ds]]])"
proof -
  from webhook_valid_shape [OF assms(1,2)] obtain pre c where
    shape: "calls st = pre @ [c]"
      "list_all (\<lambda>c. failure c = None \<and> \<not> is_append (request c)) pre"
      "is_append (request c) \<longrightarrow>
         request c = append_request env (get_prop req_body ''data'') (issued_at c)"
      "case failure c of
         None \<Rightarrow> res = ok_response \<and> is_append (request c)
       | Some e \<Rightarrow> res = failed_response (''Failed to update spreadsheet: '' @ message e)
            \<and> (\<exists>before. console st = before @ failure_log e)"
    by blast
  from assms(3) shape(1) have "failure c = None" by (simp add: all_ok_def)
  with shape(4) have ok: "res = ok_response" and app: "is_append (request c)" by simp_all
  from no_append_before [OF shape(2)] shape(1) app
  have "filter (\<lambda>c. is_append (request c)) (calls st) = [c]" by simp
  with app shape(3) ok show ?thesis
    by (simp add: append_request_def row_of_def ok_response_def)
qed

theorem valid_payload_appends_one_row_witness:
  "valid_payload jane
   \<and> all_ok (calls (snd (webhook mem_env jane mem_ready)))
   \<and> status (fst (webhook mem_env jane mem_ready)) = 200
   \<and> map request (filter (\<lambda>c. is_append (request c)) (calls (snd (webhook mem_env jane mem_ready))))
       = [ValuesAppend (Some ''spreadsheet-1'') ''Calendar!A:E'' ''USER_ENTERED'' ''INSERT_ROWS''
            [[JStr ''2024-03-09'', JStr ''12:00'', JStr ''Jane Doe'', JStr ''jane@example.com'', JStr []]]]
   \<and> mem_rows (world (snd (webhook mem_env jane mem_ready))) ''Calendar''
       = mem_rows mem_ready ''Calendar''
         @ [[JStr ''2024-03-09'', JStr ''12:00'', JStr ''Jane Doe'', JStr ''jane@example.com'', JStr []]]"
proof -
  have v: "valid_payload jane"
    by (simp add: valid_payload_def jane_def)
  have ok: "all_ok (calls (snd (webhook mem_env jane mem_ready)))"
    by (simp add: run_jane_ready all_ok_def)
  have rows: "mem_rows (world (snd (webhook mem_env jane mem_ready))) ''Calendar''
       = mem_rows mem_ready ''Calendar''
         @ [[JStr ''2024-03-09'', JStr ''12:00'', JStr ''Jane Doe'', JStr ''jane@example.com'', JStr []]]"
    unfolding run_jane_ready by (simp add: mem_rows_def mem_ready_def)
  have apps: "map request (filter (\<lambda>c. is_append (request c)) (calls (snd (webhook mem_env jane mem_ready))))
       = [ValuesAppend (Some ''spreadsheet-1'') ''Calendar!A:E'' ''USER_ENTERED'' ''INSERT_ROWS''
            [[JStr ''2024-03-09'', JStr ''12:00'', JStr ''Jane Doe'', JStr ''jane@example.com'', JStr []]]]"
    by (simp add: run_jane_ready)
  from valid_payload_appends_one_row [OF v surjective_pairing ok]
  have "status (fst (webhook mem_env jane mem_ready)) = 200" by simp
  with v ok rows apps show ?thesis by blast
qed

text \<open>
  C1 as it is written, for every request body and nothing said of the service, fails
  when the service refuses a call: the valid payload is answered with HTTP 500 and no
  row is appended.
\<close>

theorem valid_payload_refused_counterexample:
  "valid_payload jane
   \<and> fst (webhook mem_env jane mem_refusing) =
       \<lparr>status = 500,
        body = JObj [(''error'', JStr ''Internal server error''),
                     (''details'', JStr ''Failed to update spreadsheet: invalid_grant'')]\<rparr>
   \<and> filter (\<lambda>c. is_append (request c)) (calls (snd (webhook mem_env jane mem_refusing))) = []
   \<and> mem_rows (world (snd (webhook mem_env jane mem_refusing))) ''Calendar''
       = mem_rows mem_refusing ''Calendar''"
  by (simp add: run_jane_refusing failed_response_def) (simp add: valid_payload_def jane_def)

text \<open>
  C3. For every valid payload, the row of every append the handler issues has, in its
  date column, the UTC date of the clock at the time of the append, printed
  \<^verbatim>\<open>YYYY-MM-DD\<close> (for a year of at most four digits), when \<^verbatim>\<open>data.date\<close> is absent; in
  its time column, \<^verbatim>\<open>12:00\<close> when \<^verbatim>\<open>data.time\<close> is absent; in its description column,
  the empty string when \<^verbatim>\<open>data.description\<close> is absent.
\<close>

theorem defaults_for_omitted_fields:
  assumes "valid_payload req_body" and "data = get_prop req_body ''data''"
    and "webhook env req_body w = (res, st)"
    and "c \<in> set (calls st)" and "request c = ValuesAppend ssid rng vio ido vals"
  shows "\<exists>d tm ds.
           vals = [[d, tm, get_prop data ''name'', get_prop data ''email'', ds]]
         \<and> (get_prop data ''date'' = JUndefined \<and> year (issued_at c) \<le> 9999 \<longrightarrow>
              d = JStr (yyyy_mm_dd (issued_at c)))
         \<and> (get_prop data ''time'' = JUndefined \<longrightarrow> tm = JStr ''12:00'')
         \<and> (get_prop data ''description'' = JUndefined \<longrightarrow> ds = JStr [])"
  using appended_row [OF assms(1,3,4,5)] assms(2)
  by (simp add: row_of_def js_or_def split_T_0_toISOString)

theorem defaults_for_omitted_fields_witness:
  "valid_payload jane
   \<and> get_prop (get_prop jane ''data'') ''date'' = JUndefined
   \<and> get_prop (get_prop jane ''data'') ''time'' = JUndefined
   \<and> get_prop (get_prop jane ''data'') ''description'' = JUndefined
   \<and> yyyy_mm_dd noon = ''2024-03-09''
   \<and> map request (calls (snd (webhook mem_env jane mem_ready))) =
       [SpreadsheetsGet (Some ''spreadsheet-1'') ''sheets(properties(sheetId,title))'',
        ValuesAppend (Some ''spreadsheet-1'') ''Calendar!A:E'' ''USER_ENTERED'' ''INSERT_ROWS''
          [[JStr (yyyy_mm_dd noon), JStr ''12:00'', JStr ''Jane Doe'', JStr ''jane@example.com'', JStr []]]]"
proof -
  let ?c = "\<lparr>request = ValuesAppend (Some ''spreadsheet-1'') ''Calendar!A:E'' ''USER_ENTERED'' ''INSERT_ROWS''
                 [[JStr ''2024-03-09'', JStr ''12:00'', JStr ''Jane Doe'', JStr ''jane@example.com'', JStr []]],
             issued_at = noon, failure = None\<rparr>"
  have v: "valid_payload jane"
    by (simp add: valid_payload_def jane_def)
  have absent: "get_prop (get_prop jane ''data'') ''date'' = JUndefined"
    "get_prop (get_prop jane ''data'') ''time'' = JUndefined"
    "get_prop (get_prop jane ''data'') ''description'' = JUndefined"
    by (simp_all add: jane_def)
  have c: "?c \<in> set (calls (snd (webhook mem_env jane mem_ready)))"
    by (simp add: run_jane_ready)
  have y: "year (issued_at ?c) \<le> 9999" "yyyy_mm_dd noon = ''2024-03-09''"
    by (simp_all add: noon_def yyyy_mm_dd_def pad4_def pad2_def digit_def)
  from defaults_for_omitted_fields [OF v refl surjective_pairing c, of "Some ''spreadsheet-1''"
      "''Calendar!A:E''" "''USER_ENTERED''" "''INSERT_ROWS''"
      "[[JStr ''2024-03-09'', JStr ''12:00'', JStr ''Jane Doe'', JStr ''jane@example.com'', JStr []]]"]
    absent y
  have "JStr ''2024-03-09'' = JStr (yyyy_mm_dd noon)" by simp
  then have "map request (calls (snd (webhook mem_env jane mem_ready))) =
       [SpreadsheetsGet (Some ''spreadsheet-1'') ''sheets(properties(sheetId,title))'',
        ValuesAppend (Some ''spreadsheet-1'') ''Calendar!A:E'' ''USER_ENTERED'' ''INSERT_ROWS''
          [[JStr (yyyy_mm_dd noon), JStr ''12:00'', JStr ''Jane Doe'', JStr ''jane@example.com'', JStr []]]]"
    by (simp add: run_jane_ready)
  with v absent y(2) show ?thesis by blast
qed

text \<open>
  C10. The defaults also replace a field that is present and falsy (the empty string,
  0, false, null): for every valid payload, the row of every append the handler issues
  has the UTC date of the clock, \<^verbatim>\<open>12:00\<close> and the empty string in place of such a
  \<^verbatim>\<open>data.date\<close>, \<^verbatim>\<open>data.time\<close> and \<^verbatim>\<open>data.description\<close>.
\<close>

theorem defaults_for_falsy_fields:
  assumes "valid_payload req_body" and "data = get_prop req_body ''data''"
    and "webhook env req_body w = (res, st)"
    and "c \<in> set (calls st)" and "request c = ValuesAppend ssid rng vio ido vals"
  shows "\<exists>d tm ds.
           vals = [[d, tm, get_prop data ''name'', get_prop data ''email'', ds]]
         \<and> (present_falsy (get_prop data ''date'') \<and> year (issued_at c) \<le> 9999 \<longrightarrow>
              d = JStr (yyyy_mm_dd (issued_at c)))
         \<and> (present_falsy (get_prop data ''time'') \<longrightarrow> tm = JStr ''12:00'')
         \<and> (present_falsy (get_prop data ''description'') \<longrightarrow> ds = JStr [])"
proof -
  have "\<not> truthy v" if "present_falsy v" for v
    using that falsy_iff [of v] by (simp add: falsy_def)
  with appended_row [OF assms(1,3,4,5)] assms(2) show ?thesis
    by (auto simp: row_of_def js_or_def split_T_0_toISOString)
qed

theorem defaults_for_falsy_fields_witness:
  "valid_payload blank_fields
   \<and> get_prop (get_prop blank_fields ''data'') ''date'' = JStr []
   \<and> get_prop (get_prop blank_fields ''data'') ''time'' = JNum (Finite 0)
   \<and> get_prop (get_prop blank_fields ''data'') ''description'' = JBool False
   \<and> map request (calls (snd (webhook mem_env blank_fields mem_ready))) =
       [SpreadsheetsGet (Some ''spreadsheet-1'') ''sheets(properties(sheetId,title))'',
        ValuesAppend (Some ''spreadsheet-1'') ''Calendar!A:E'' ''USER_ENTERED'' ''INSERT_ROWS''
          [[JStr (yyyy_mm_dd noon), JStr ''12:00'', JStr ''Jane Doe'', JStr ''jane@example.com'', JStr []]]]"
proof -
  let ?c = "\<lparr>request = ValuesAppend (Some ''spreadsheet-1'') ''Calendar!A:E'' ''USER_ENTERED'' ''INSERT_ROWS''
                 [[JStr ''2024-03-09'', JStr ''12:00'', JStr ''Jane Doe'', JStr ''jane@example.com'', JStr []]],
             issued_at = noon, failure = None\<rparr>"
  have v: "valid_payload blank_fields"
    by (simp add: valid_payload_def blank_fields_def)
  have given: "get_prop (get_prop blank_fields ''data'') ''date'' = JStr []"
    "get_prop (get_prop blank_fields ''data'') ''time'' = JNum (Finite 0)"
    "get_prop (get_prop blank_fields ''data'') ''description'' = JBool False"
    by (simp_all add: blank_fields_def)
  have pf: "present_falsy (JStr [])" "present_falsy (JNum (Finite 0))" "present_falsy (JBool False)"
    by (simp_all add: present_falsy_def)
  have c: "?c \<in> set (calls (snd (webhook mem_env blank_fields mem_ready)))"
    by (simp add: run_blank_fields_ready)
  have y: "year (issued_at ?c) \<le> 9999"
    by (simp add: noon_def)
  from defaults_for_falsy_fields [OF v refl surjective_pairing c, of "Some ''spreadsheet-1''"
      "''Calendar!A:E''" "''USER_ENTERED''" "''INSERT_ROWS''"
      "[[JStr ''2024-03-09'', JStr ''12:00'', JStr ''Jane Doe'', JStr ''jane@example.com'', JStr []]]"]
    given pf y
  have "JStr ''2024-03-09'' = JStr (yyyy_mm_dd noon)" by simp
  then have "map request (calls (snd (webhook mem_env blank_fields mem_ready))) =
       [SpreadsheetsGet (Some ''spreadsheet-1'') ''sheets(properties(sheetId,title))'',
        ValuesAppend (Some ''spreadsheet-1'') ''Calendar!A:E'' ''USER_ENTERED'' ''INSERT_ROWS''
          [[JStr (yyyy_mm_dd noon), JStr ''12:00'', JStr ''Jane Doe'', JStr ''jane@example.com'', JStr []]]]"
    by (simp add: run_blank_fields_ready)
  with v given show ?thesis by blast
qed

section \<open>Failures of the remote service\<close>

text \<open>
  C7. Whatever remote call of a run fails (the metadata read, the sheet creation, the
  header write or the row append), with whatever error, it is the last call of the run,
  the handler answers HTTP 500 with
  \<^verbatim>\<open>{error: "Internal server error", details: "Failed to update spreadsheet: " + message}\<close>,
  and the console ends with the error's message, the messages of its sub-errors and the
  wrapped message. The answer is built from the message alone: no sub-error is in it.
\<close>

theorem remote_failure_is_wrapped:
  assumes "webhook env req_body w = (res, st)" and "c \<in> set (calls st)" and "failure c = Some e"
  shows "res = \<lparr>status = 500,
                body = JObj [(''error'', JStr ''Internal server error''),
                             (''details'', JStr (''Failed to update spreadsheet: '' @ message e))]\<rparr>
       \<and> c = last (calls st)
       \<and> (\<exists>before. console st =
             before @ Sheets_API_Error (message e) #
               (case errors e of None \<Rightarrow> [] | Some es \<Rightarrow> map Sub_error es) @
               [Webhook_Error (''Failed to update spreadsheet: '' @ message e)])"
proof -
  from assms(1,2) webhook_calls [of env req_body w] have v: "valid_payload req_body"
    by auto
  from webhook_valid_shape [OF v assms(1)] obtain pre c' where
    shape: "calls st = pre @ [c']"
      "list_all (\<lambda>c. failure c = None \<and> \<not> is_append (request c)) pre"
      "case failure c' of
         None \<Rightarrow> res = ok_response \<and> is_append (request c')
       | Some e \<Rightarrow> res = failed_response (''Failed to update spreadsheet: '' @ message e)
            \<and> (\<exists>before. console st = before @ failure_log e)"
    by blast
  from shape(2) assms(3) have "c \<notin> set pre" by (auto simp: list_all_iff)
  with assms(2) shape(1) have c: "c = c'" by simp
  with shape(3) assms(3)
  have "res = failed_response (''Failed to update spreadsheet: '' @ message e)"
    and "\<exists>before. console st = before @ failure_log e"
    by simp_all
  with c shape(1) show ?thesis
    by (simp add: failed_response_def failure_log_def)
qed

theorem remote_failure_is_wrapped_witness:
  "webhook mem_env jane mem_refusing =
     (\<lparr>status = 500,
       body = JObj [(''error'', JStr ''Internal server error''),
                    (''details'', JStr ''Failed to update spreadsheet: invalid_grant'')]\<rparr>,
      \<lparr>world = mem_refusing,
       calls = [\<lparr>request = SpreadsheetsGet (Some ''spreadsheet-1'') ''sheets(properties(sheetId,title))'',
                 issued_at = noon, failure = Some invalid_grant\<rparr>],
       console = [Incoming_webhook jane, Sheets_API_Error ''invalid_grant'',
                  Sub_error ''Invalid JWT Signature.'',
                  Webhook_Error ''Failed to update spreadsheet: invalid_grant'']\<rparr>)"
proof -
  let ?c = "\<lparr>request = SpreadsheetsGet (Some ''spreadsheet-1'') ''sheets(properties(sheetId,title))'',
             issued_at = noon, failure = Some invalid_grant\<rparr>"
  have c: "?c \<in> set (calls (snd (webhook mem_env jane mem_refusing)))" "failure ?c = Some invalid_grant"
    by (simp_all add: run_jane_refusing)
  from remote_failure_is_wrapped [OF surjective_pairing c]
  have "fst (webhook mem_env jane mem_refusing) =
     \<lparr>status = 500,
      body = JObj [(''error'', JStr ''Internal server error''),
                   (''details'', JStr (''Failed to update spreadsheet: '' @ message invalid_grant))]\<rparr>"
    by blast
  then show ?thesis
    by (simp add: run_jane_refusing failed_response_def invalid_grant_def)
qed

text \<open>
  Each of the four calls can be the one that fails: on the scripted service the run
  stops at the failing call, and the answer is the same wrapped error.
\<close>

lemma every_remote_call_can_fail:
  "map (\<lambda>k. (fst (webhook (scripted_env k) jane 0),
              map (\<lambda>c. (is_batchUpdate (request c), is_append (request c), failure c))
                (calls (snd (webhook (scripted_env k) jane 0))))) [0, 1, 2, 3, 4]
   = [(failed_response ''Failed to update spreadsheet: socket hang up'',
       [(False, False, Some hang_up)]),
      (failed_response ''Failed to update spreadsheet: socket hang up'',
       [(False, False, None), (True, False, Some hang_up)]),
      (failed_response ''Failed to update spreadsheet: socket hang up'',
       [(False, False, None), (True, False, None), (False, False, Some hang_up)]),
      (failed_response ''Failed to update spreadsheet: socket hang up'',
       [(False, False, None), (True, False, None), (False, False, None), (False, True, Some hang_up)]),
      (ok_response,
       [(False, False, None), (True, False, None), (False, False, None), (False, True, None)])]"
  by (simp add: webhook_def jane_def scripted_env_def hang_up_def Let_def step_defs
      SHEET_NAME_def SPREADSHEET_ID_def find_sheet_def not_sheetId_def add_sheet_request_def
      header_request_def append_request_def nullish_def falsy_def ok_response_def failed_response_def)

section \<open>The sheet provisioner\<close>

text \<open>
  C6, as amended. Whenever the provisioner runs, the first call it issues is the one
  batched update whose single request adds a sheet with the configured name and a grid
  of 1000 rows by 10 columns; when that call succeeds, the next and last call writes the
  row \<^verbatim>\<open>["Date", "Time", "Name", "Email", "Description"]\<close> to the range \<^verbatim>\<open>A1:E1\<close> of that
  sheet with the input option \<^verbatim>\<open>USER_ENTERED\<close>; when it fails, nothing else is issued.
\<close>

theorem provision_requests:
  assumes "provision env st = (res, st1)"
  shows "\<exists>c rest. calls st1 = calls st @ c # rest
           \<and> request c = SpreadsheetsBatchUpdate (SPREADSHEET_ID env) [AddSheet (SHEET_NAME env) 1000 10]
           \<and> list_all (\<lambda>c. \<not> is_batchUpdate (request c)) rest
           \<and> (case failure c of
                 None \<Rightarrow>
                   map request rest =
                     [ValuesUpdate (SPREADSHEET_ID env) (SHEET_NAME env @ ''!A1:E1'') ''USER_ENTERED''
                        [[JStr ''Date'', JStr ''Time'', JStr ''Name'', JStr ''Email'', JStr ''Description'']]]
               | Some e \<Rightarrow> rest = [] \<and> res = Inl e)"
  using assms
  by (auto simp: provision_def remote_def console_write_def add_sheet_request_def header_request_def
      split: prod.splits sum.splits)

theorem provision_requests_witness:
  "map request (calls (snd (provision mem_env (idle jane mem_new)))) =
     [SpreadsheetsBatchUpdate (Some ''spreadsheet-1'') [AddSheet ''Calendar'' 1000 10],
      ValuesUpdate (Some ''spreadsheet-1'') ''Calendar!A1:E1'' ''USER_ENTERED''
        [[JStr ''Date'', JStr ''Time'', JStr ''Name'', JStr ''Email'', JStr ''Description'']]]
   \<and> mem_rows (world (snd (provision mem_env (idle jane mem_new)))) ''Calendar''
       = [[JStr ''Date'', JStr ''Time'', JStr ''Name'', JStr ''Email'', JStr ''Description'']]"
proof -
  have run: "provision mem_env (idle jane mem_new) =
    (Inr 1789,
     \<lparr>world = mem_new\<lparr>mem_sheets := [(\<lparr>sheetId = 0, title = ''Sheet1''\<rparr>, []),
         (\<lparr>sheetId = 1789, title = ''Calendar''\<rparr>, [header_row])], mem_next_id := 1790\<rparr>,
      calls = [\<lparr>request = SpreadsheetsBatchUpdate (Some ''spreadsheet-1'') [AddSheet ''Calendar'' 1000 10],
                issued_at = noon, failure = None\<rparr>,
               \<lparr>request = ValuesUpdate (Some ''spreadsheet-1'') ''Calendar!A1:E1'' ''USER_ENTERED'' [header_row],
                issued_at = noon, failure = None\<rparr>],
      console = [Incoming_webhook jane, Creating_new_sheet ''Calendar'']\<rparr>)"
    by (simp add: mem_new_def step_defs mem_defs)
  from provision_requests [OF run] obtain c rest where
    "[\<lparr>request = SpreadsheetsBatchUpdate (Some ''spreadsheet-1'') [AddSheet ''Calendar'' 1000 10],
                issued_at = noon, failure = None\<rparr>,
               \<lparr>request = ValuesUpdate (Some ''spreadsheet-1'') ''Calendar!A1:E1'' ''USER_ENTERED'' [header_row],
                issued_at = noon, failure = None\<rparr>] = c # rest"
    "request c = SpreadsheetsBatchUpdate (SPREADSHEET_ID mem_env) [AddSheet (SHEET_NAME mem_env) 1000 10]"
    "case failure c of
       None \<Rightarrow> map request rest =
         [ValuesUpdate (SPREADSHEET_ID mem_env) (SHEET_NAME mem_env @ ''!A1:E1'') ''USER_ENTERED''
            [[JStr ''Date'', JStr ''Time'', JStr ''Name'', JStr ''Email'', JStr ''Description'']]]
     | Some e \<Rightarrow> rest = [] \<and> Inr 1789 = Inl e"
    by (auto simp: idle_def)
  then have "map request (calls (snd (provision mem_env (idle jane mem_new)))) =
     [SpreadsheetsBatchUpdate (SPREADSHEET_ID mem_env) [AddSheet (SHEET_NAME mem_env) 1000 10],
      ValuesUpdate (SPREADSHEET_ID mem_env) (SHEET_NAME mem_env @ ''!A1:E1'') ''USER_ENTERED''
        [[JStr ''Date'', JStr ''Time'', JStr ''Name'', JStr ''Email'', JStr ''Description'']]]"
    unfolding run by auto
  moreover have "mem_rows (world (snd (provision mem_env (idle jane mem_new)))) ''Calendar''
       = [[JStr ''Date'', JStr ''Time'', JStr ''Name'', JStr ''Email'', JStr ''Description'']]"
    unfolding run by (simp add: mem_rows_def mem_new_def header_row_def)
  ultimately show ?thesis
    by (simp add: mem_env_def SPREADSHEET_ID_def SHEET_NAME_def)
qed

text \<open>
  C6 as it is written, with the header written whenever the provisioner runs, fails
  when the creation of the sheet fails: the error leaves the block and no header is
  written.
\<close>

theorem provision_without_header_counterexample:
  "fst (provision (scripted_env 0) (idle jane 0)) = Inl hang_up
   \<and> map request (calls (snd (provision (scripted_env 0) (idle jane 0)))) =
       [SpreadsheetsBatchUpdate None [AddSheet ''Bookings'' 1000 10]]
   \<and> map request (calls (snd (webhook (scripted_env 1) jane 0))) =
       [SpreadsheetsGet None ''sheets(properties(sheetId,title))'',
        SpreadsheetsBatchUpdate None [AddSheet ''Bookings'' 1000 10]]
   \<and> map failure (calls (snd (webhook (scripted_env 1) jane 0))) = [None, Some hang_up]"
  by (simp add: webhook_def jane_def scripted_env_def hang_up_def Let_def step_defs idle_def
      SHEET_NAME_def SPREADSHEET_ID_def find_sheet_def not_sheetId_def add_sheet_request_def
      header_request_def nullish_def falsy_def)

text \<open>The provisioner runs exactly when \<^verbatim>\<open>!sheetId\<close> holds of the resolver's answer.\<close>

lemma provisioning_gate:
  assumes "spreadsheets_get (sheets env) (SPREADSHEET_ID env) ''sheets(properties(sheetId,title))''
             (world st) = (Inr listing, w1)"
    and "addToCalendar_try env d st = (res, st1)" and "\<not> nullish d"
  shows "if find_sheet listing (SHEET_NAME env) = None \<or> find_sheet listing (SHEET_NAME env) = Some 0
         then map request (take 2 (drop (length (calls st)) (calls st1))) =
                [SpreadsheetsGet (SPREADSHEET_ID env) ''sheets(properties(sheetId,title))'',
                 SpreadsheetsBatchUpdate (SPREADSHEET_ID env) [AddSheet (SHEET_NAME env) 1000 10]]
         else map request (drop (length (calls st)) (calls st1)) =
                [SpreadsheetsGet (SPREADSHEET_ID env) ''sheets(properties(sheetId,title))'',
                 append_request env d (clock env w1)]"
  using assms
  by (auto simp: step_defs not_sheetId_def add_sheet_request_def header_request_def
      split: prod.splits sum.splits option.splits)

text \<open>
  C4 does not hold of the code. A sheet of identifier 0 (the first sheet of every
  spreadsheet has it) is found by the resolver, but \<^verbatim>\<open>!sheetId\<close> holds of 0 as it does
  of null: the provisioner runs although the sheet exists. On the in-memory service,
  whose Calendar sheet is the renamed first sheet, the resolver answers 0, the handler
  asks for a second Calendar sheet, the service refuses it and the request ends in HTTP
  500 with no row appended.
\<close>

theorem provisioner_runs_on_sheetId_0:
  "fst (getSheetId mem_env (SHEET_NAME mem_env) (idle jane mem_renamed)) = Inr (Some 0)
   \<and> map request (calls (snd (webhook mem_env jane mem_renamed))) =
       [SpreadsheetsGet (Some ''spreadsheet-1'') ''sheets(properties(sheetId,title))'',
        SpreadsheetsBatchUpdate (Some ''spreadsheet-1'') [AddSheet ''Calendar'' 1000 10]]
   \<and> fst (webhook mem_env jane mem_renamed) =
       \<lparr>status = 500,
        body = JObj [(''error'', JStr ''Internal server error''),
                     (''details'', JStr ''Failed to update spreadsheet: A sheet with the name Calendar already exists'')]\<rparr>
   \<and> mem_rows (world (snd (webhook mem_env jane mem_renamed))) ''Calendar''
       = mem_rows mem_renamed ''Calendar''"
proof -
  have "fst (getSheetId mem_env (SHEET_NAME mem_env) (idle jane mem_renamed)) = Inr (Some 0)"
    by (simp add: getSheetId_def remote_def mem_renamed_def mem_defs)
  then show ?thesis
    by (simp add: run_jane_renamed failed_response_def)
qed

text \<open>
  With any other identifier the provisioning is idempotent: the request that created
  the sheet leaves it with its header, and the next request finds it, creates nothing
  and appends its row below.
\<close>

lemma second_request_after_creation:
  "map request (calls (snd (webhook mem_env jane (world (snd (webhook mem_env jane mem_new)))))) =
     [SpreadsheetsGet (Some ''spreadsheet-1'') ''sheets(properties(sheetId,title))'',
      ValuesAppend (Some ''spreadsheet-1'') ''Calendar!A:E'' ''USER_ENTERED'' ''INSERT_ROWS''
        [[JStr ''2024-03-09'', JStr ''12:00'', JStr ''Jane Doe'', JStr ''jane@example.com'', JStr []]]]"
  "mem_rows (world (snd (webhook mem_env jane (world (snd (webhook mem_env jane mem_new)))))) ''Calendar''
     = [header_row,
        [JStr ''2024-03-09'', JStr ''12:00'', JStr ''Jane Doe'', JStr ''jane@example.com'', JStr []],
        [JStr ''2024-03-09'', JStr ''12:00'', JStr ''Jane Doe'', JStr ''jane@example.com'', JStr []]]"
  unfolding run_jane_new
  by (simp_all add: webhook_def jane_def mem_new_def Let_def step_defs mem_defs)

end
